theory Spec2Isabelle
  imports Complex_Main "HOL-Library.Monad_Syntax"
begin

section \<open>Data model\<close>

text \<open>
  The program is the header \<^verbatim>\<open>src/admm.h\<close>: the function templates \<^verbatim>\<open>admm\<close>
  (the spec's \<^verbatim>\<open>solve\<close>) and \<^verbatim>\<open>admm_benchmark\<close> (the spec's \<^verbatim>\<open>solveInstrumented\<close>).

  \<^item> An \<^verbatim>\<open>arma::mat\<close> of the fixed shape shared by \<^verbatim>\<open>input\<close>, \<^verbatim>\<open>z\<close>, \<^verbatim>\<open>u\<close> and \<^verbatim>\<open>x\<close>
    is an element of a type \<open>'m\<close> of sort \<open>real_normed_vector\<close>: the code only adds and
    subtracts such matrices, multiplies and divides them by a scalar and takes their
    Frobenius norm, which is the Euclidean norm of the matrix read as a vector. The
    instance \<open>real\<close> is the space of 1 x 1 matrices, where the Frobenius norm is the
    absolute value.
  \<^item> A \<^verbatim>\<open>double\<close> is a \<open>real\<close>: in the first model (\<open>admm\<close>, \<open>admm_benchmark\<close>)
    arithmetic is exact. Rounding, overflow, underflow, infinities and NaN of IEEE-754
    are outside that model, and so is division by zero (\<open>x / 0 = 0\<close> in HOL). It decides
    the claims on the control flow and on the order of the steps. Where the value of the
    penalty or of a residual decides a claim (C7, C8), the second model (\<open>admm_b64\<close>)
    rounds every operation on a \<^verbatim>\<open>double\<close> as binary64 does.
  \<^item> The loop counter is a C++ \<^verbatim>\<open>int\<close>. It starts at 0 and is incremented only while
    it is below \<^verbatim>\<open>maxiter\<close>, so it never exceeds \<^verbatim>\<open>maxiter\<close> and cannot overflow;
    it is modelled as an unbounded \<open>int\<close>.
  \<^item> The functors \<^verbatim>\<open>projection\<close> and \<^verbatim>\<open>selection\<close> mutate their matrix argument in
    place; they are functions \<open>'m \<Rightarrow> 'm\<close> and \<open>'m \<Rightarrow> real \<Rightarrow> 'm\<close> that return the new
    matrix (deterministic for fixed input, and keeping the shape).
  \<^item> The parameters passed by reference (\<^verbatim>\<open>z\<close>, \<^verbatim>\<open>u\<close>, \<^verbatim>\<open>admm_penalty\<close>, and for the
    benchmark \<^verbatim>\<open>errs\<close> and \<^verbatim>\<open>times\<close>) are returned, updated, next to the return value.
\<close>

text \<open>The values one pass through lines 54 to 69 leaves in the variables
  \<^verbatim>\<open>x\<close>, \<^verbatim>\<open>z\<close>, \<^verbatim>\<open>u\<close>, \<^verbatim>\<open>rr\<close> and \<^verbatim>\<open>ss\<close>.\<close>

record 'm body_vals =
  x_of :: 'm
  z_of :: 'm
  u_of :: 'm
  rr_of :: real
  ss_of :: real

section \<open>The solver \<^verbatim>\<open>admm\<close>\<close>

text \<open>Lines 54 to 69, one binding for each assignment and each in-place call; a later
  binding of a name shadows the earlier one, as the assignment overwrites the variable.\<close>

definition admm_body ::
  "('m \<Rightarrow> 'm) \<Rightarrow> ('m \<Rightarrow> real \<Rightarrow> 'm) \<Rightarrow> 'm \<Rightarrow> 'm \<Rightarrow> 'm \<Rightarrow> real
     \<Rightarrow> ('m::real_normed_vector) body_vals" where
  "admm_body projection selection input z u admm_penalty =
    (let z_old = z;
         x = z - u + input /\<^sub>R admm_penalty;
         x = projection x;
         z = x + u;
         z = selection z (1 / admm_penalty);
         u = u + x - z;
         rr = norm (x - z);
         ss = admm_penalty * norm (z - z_old)
     in \<lparr>x_of = x, z_of = z, u_of = u, rr_of = rr, ss_of = ss\<rparr>)"

text \<open>Lines 78 to 84: the new \<^verbatim>\<open>admm_penalty\<close> and the new \<^verbatim>\<open>u\<close>.\<close>

definition penalty_adjustment ::
  "real \<Rightarrow> real \<Rightarrow> real \<Rightarrow> real \<Rightarrow> 'm \<Rightarrow> real \<times> ('m::real_normed_vector)" where
  "penalty_adjustment admm_adjust rr ss admm_penalty u =
    (if rr > 10 * ss then (admm_penalty * admm_adjust, u /\<^sub>R admm_adjust)
     else if ss > 10 * rr then (admm_penalty / admm_adjust, admm_adjust *\<^sub>R u)
     else (admm_penalty, u))"

text \<open>The \<^verbatim>\<open>for\<close> loop of lines 52 to 85, entered with the counter at \<open>niter\<close>. The result
  is the final counter with the final \<^verbatim>\<open>z\<close>, \<^verbatim>\<open>u\<close> and \<^verbatim>\<open>admm_penalty\<close>. The \<^verbatim>\<open>break\<close>
  of line 74 is the branch that does not recurse.\<close>

function admm_loop ::
  "('m \<Rightarrow> 'm) \<Rightarrow> ('m \<Rightarrow> real \<Rightarrow> 'm) \<Rightarrow> 'm \<Rightarrow> real \<Rightarrow> int \<Rightarrow> real
     \<Rightarrow> int \<Rightarrow> 'm \<Rightarrow> 'm \<Rightarrow> real \<Rightarrow> int \<times> ('m::real_normed_vector) \<times> 'm \<times> real" where
  "admm_loop projection selection input admm_adjust maxiter tolerance niter z u admm_penalty =
    (if niter < maxiter then
       (let b = admm_body projection selection input z u admm_penalty in
        if rr_of b < tolerance \<and> ss_of b < tolerance then
          (niter + 1, z_of b, u_of b, admm_penalty)
        else
          (let (admm_penalty, u) =
                 penalty_adjustment admm_adjust (rr_of b) (ss_of b) admm_penalty (u_of b)
           in admm_loop projection selection input admm_adjust maxiter tolerance
                (niter + 1) (z_of b) u admm_penalty))
     else (niter, z, u, admm_penalty))"
  by pat_completeness auto
termination
  by (relation "measure (\<lambda>(projection, selection, input, admm_adjust, maxiter, tolerance,
                           niter, z, u, admm_penalty). nat (maxiter - niter))") auto

declare admm_loop.simps [simp del]

text \<open>The function \<^verbatim>\<open>admm\<close> (lines 42 to 88), with the parameters in the order of the
  source. The result is the returned \<^verbatim>\<open>niter\<close> and the final \<^verbatim>\<open>z\<close>, \<^verbatim>\<open>u\<close>,
  \<^verbatim>\<open>admm_penalty\<close>.\<close>

definition admm ::
  "('m \<Rightarrow> 'm) \<Rightarrow> ('m \<Rightarrow> real \<Rightarrow> 'm) \<Rightarrow> 'm \<Rightarrow> 'm \<Rightarrow> 'm \<Rightarrow> real \<Rightarrow> real \<Rightarrow> int \<Rightarrow> real
     \<Rightarrow> int \<times> ('m::real_normed_vector) \<times> 'm \<times> real" where
  "admm projection selection input z u admm_penalty admm_adjust maxiter tolerance =
     admm_loop projection selection input admm_adjust maxiter tolerance 0 z u admm_penalty"

subsection \<open>The iterates of a run\<close>

text \<open>One pass through the loop body that does not take the \<^verbatim>\<open>break\<close>: lines 54 to 69
  followed by lines 78 to 84, as a map on \<open>(z, u, admm_penalty)\<close>.\<close>

definition admm_next ::
  "('m \<Rightarrow> 'm) \<Rightarrow> ('m \<Rightarrow> real \<Rightarrow> 'm) \<Rightarrow> 'm \<Rightarrow> real
     \<Rightarrow> ('m::real_normed_vector) \<times> 'm \<times> real \<Rightarrow> 'm \<times> 'm \<times> real" where
  "admm_next projection selection input admm_adjust s =
    (case s of (z, u, admm_penalty) \<Rightarrow>
       let b = admm_body projection selection input z u admm_penalty;
           p = penalty_adjustment admm_adjust (rr_of b) (ss_of b) admm_penalty (u_of b)
       in (z_of b, snd p, fst p))"

text \<open>The values of \<open>(z, u, admm_penalty)\<close> at the head of iteration \<open>k\<close> (counted from 0)
  of a call that starts from \<open>(z, u, admm_penalty)\<close>, as long as no earlier iteration took
  the \<^verbatim>\<open>break\<close>.\<close>

definition admm_state_at ::
  "('m \<Rightarrow> 'm) \<Rightarrow> ('m \<Rightarrow> real \<Rightarrow> 'm) \<Rightarrow> 'm \<Rightarrow> 'm \<Rightarrow> 'm \<Rightarrow> real \<Rightarrow> real \<Rightarrow> nat
     \<Rightarrow> ('m::real_normed_vector) \<times> 'm \<times> real" where
  "admm_state_at projection selection input z u admm_penalty admm_adjust k =
     (admm_next projection selection input admm_adjust ^^ k) (z, u, admm_penalty)"

text \<open>The test of line 72 on the residuals that the loop body computes from a state.\<close>

definition converged_from ::
  "('m \<Rightarrow> 'm) \<Rightarrow> ('m \<Rightarrow> real \<Rightarrow> 'm) \<Rightarrow> 'm \<Rightarrow> real
     \<Rightarrow> ('m::real_normed_vector) \<times> 'm \<times> real \<Rightarrow> bool" where
  "converged_from projection selection input tolerance s =
    (case s of (z, u, admm_penalty) \<Rightarrow>
       let b = admm_body projection selection input z u admm_penalty
       in rr_of b < tolerance \<and> ss_of b < tolerance)"

text \<open>Iteration \<open>k\<close> of a call satisfies the convergence test.\<close>

definition converged_at ::
  "('m \<Rightarrow> 'm) \<Rightarrow> ('m \<Rightarrow> real \<Rightarrow> 'm) \<Rightarrow> ('m::real_normed_vector) \<Rightarrow> 'm \<Rightarrow> 'm \<Rightarrow> real \<Rightarrow> real
     \<Rightarrow> real \<Rightarrow> nat \<Rightarrow> bool" where
  "converged_at projection selection input z u admm_penalty admm_adjust tolerance k =
     converged_from projection selection input tolerance
       (admm_state_at projection selection input z u admm_penalty admm_adjust k)"

text \<open>The loop entered at counter \<open>niter\<close> from a state given as a triple.\<close>

definition admm_loop_from ::
  "('m \<Rightarrow> 'm) \<Rightarrow> ('m \<Rightarrow> real \<Rightarrow> 'm) \<Rightarrow> 'm \<Rightarrow> real \<Rightarrow> int \<Rightarrow> real \<Rightarrow> int
     \<Rightarrow> ('m::real_normed_vector) \<times> 'm \<times> real \<Rightarrow> int \<times> 'm \<times> 'm \<times> real" where
  "admm_loop_from projection selection input admm_adjust maxiter tolerance niter s =
    (case s of (z, u, admm_penalty) \<Rightarrow>
       admm_loop projection selection input admm_adjust maxiter tolerance niter z u admm_penalty)"

section \<open>The instrumented solver \<^verbatim>\<open>admm_benchmark\<close>\<close>

text \<open>
  What \<^verbatim>\<open>admm_benchmark\<close> does beyond \<^verbatim>\<open>admm\<close> are calls into its environment: the print
  of line 110, the clock readings of lines 112, 135 and 159, and the eigensolver calls of
  lines 141 and 165. The \<open>trace\<close> lists these calls in the order in which they happen:
  \<open>Rcout_iter n\<close> is the line \<^verbatim>\<open>iter = n\<close> written to \<^verbatim>\<open>Rcpp::Rcout\<close>, \<open>Wall_time t\<close> a
  call of \<^verbatim>\<open>get_wall_time\<close> that returned \<open>t\<close>, \<open>Eigs_sym\<close> a call of \<^verbatim>\<open>arma::eigs_sym\<close>.
  \<open>ticks\<close> counts the clock readings taken so far.
\<close>

datatype event = Rcout_iter int | Wall_time real | Eigs_sym

record world =
  ticks :: nat
  trace :: "event list"

text \<open>Modelled from the spec: \<^verbatim>\<open>get_wall_time\<close> is declared in \<^verbatim>\<open>walltime.h\<close>, which is not
  among the sources. The spec describes it as a wall-clock timestamp source that is only
  called. The readings are a parameter: \<open>clock k\<close> is the value of the \<open>k\<close>-th reading,
  counted from 0; a call returns the next reading and logs it.\<close>

definition get_wall_time :: "(nat \<Rightarrow> real) \<Rightarrow> world \<Rightarrow> real \<times> world" where
  "get_wall_time clock w =
     (clock (ticks w),
      w\<lparr>ticks := Suc (ticks w), trace := trace w @ [Wall_time (clock (ticks w))]\<rparr>)"

text \<open>The conversion \<^verbatim>\<open>int(ndim)\<close> of lines 141 and 165 truncates towards zero (values
  outside the range of \<^verbatim>\<open>int\<close> are not modelled).\<close>

definition int_of_double :: "real \<Rightarrow> int" where
  "int_of_double d = (if 0 \<le> d then \<lfloor>d\<rfloor> else \<lceil>d\<rceil>)"

text \<open>
  The \<^verbatim>\<open>for\<close> loop of lines 108 to 170, entered with the counter at \<open>niter\<close>, written out
  statement by statement as the source does (it repeats the body of \<^verbatim>\<open>admm\<close> rather
  than calling it). The vectors \<^verbatim>\<open>errs\<close> and \<^verbatim>\<open>times\<close> are lists, \<^verbatim>\<open>push_back\<close> appends
  at the end; \<^verbatim>\<open>times\<close> is called \<open>times_v\<close> here. The parameter \<open>eigs_proj k z\<close> stands for
  lines 138 to 142 and 162 to 166, the work of the external eigensolver: the matrix
  \<^verbatim>\<open>eigvec * eigvec.t()\<close> of the \<open>k\<close> eigenvectors that \<^verbatim>\<open>arma::eigs_sym\<close> returns for the
  sparse copy of \<open>z\<close>, a matrix of the shape of \<^verbatim>\<open>truth\<close>.
\<close>

function admm_benchmark_loop ::
  "('m \<Rightarrow> 'm) \<Rightarrow> ('m \<Rightarrow> real \<Rightarrow> 'm) \<Rightarrow> real \<Rightarrow> 'm \<Rightarrow> 'm \<Rightarrow> real \<Rightarrow> int \<Rightarrow> real \<Rightarrow> int
     \<Rightarrow> (nat \<Rightarrow> real) \<Rightarrow> (int \<Rightarrow> 'm \<Rightarrow> 'm)
     \<Rightarrow> int \<Rightarrow> 'm \<Rightarrow> 'm \<Rightarrow> real \<Rightarrow> real list \<Rightarrow> real list \<Rightarrow> world
     \<Rightarrow> int \<times> ('m::real_normed_vector) \<times> 'm \<times> real \<times> real list \<times> real list \<times> world" where
  "admm_benchmark_loop projection selection ndim input truth admm_adjust maxiter tolerance
       verbose clock eigs_proj niter z u admm_penalty errs times_v w =
    (if niter < maxiter then
       (let w = (if verbose > 0 then w\<lparr>trace := trace w @ [Rcout_iter niter]\<rparr> else w);
            (t1, w) = get_wall_time clock w;
            z_old = z;
            x = z - u + input /\<^sub>R admm_penalty;
            x = projection x;
            z = x + u;
            z = selection z (1 / admm_penalty);
            u = u + x - z;
            rr = norm (x - z);
            ss = admm_penalty * norm (z - z_old)
        in if rr < tolerance \<and> ss < tolerance then
             (let niter = niter + 1;
                  (t2, w) = get_wall_time clock w;
                  times_v = times_v @ [t2 - t1];
                  w = w\<lparr>trace := trace w @ [Eigs_sym]\<rparr>;
                  proj = eigs_proj (int_of_double ndim) z;
                  errs = errs @ [norm (proj - truth)]
              in (niter, z, u, admm_penalty, errs, times_v, w))
           else
             (let (admm_penalty, u) =
                    (if rr > 10 * ss then (admm_penalty * admm_adjust, u /\<^sub>R admm_adjust)
                     else if ss > 10 * rr then (admm_penalty / admm_adjust, admm_adjust *\<^sub>R u)
                     else (admm_penalty, u));
                  (t2, w) = get_wall_time clock w;
                  times_v = times_v @ [t2 - t1];
                  w = w\<lparr>trace := trace w @ [Eigs_sym]\<rparr>;
                  proj = eigs_proj (int_of_double ndim) z;
                  errs = errs @ [norm (proj - truth)]
              in admm_benchmark_loop projection selection ndim input truth admm_adjust maxiter
                   tolerance verbose clock eigs_proj (niter + 1) z u admm_penalty errs times_v w))
     else (niter, z, u, admm_penalty, errs, times_v, w))"
  by pat_completeness auto
termination
  by (relation "measure (\<lambda>(projection, selection, ndim, input, truth, admm_adjust, maxiter,
                           tolerance, verbose, clock, eigs_proj, niter, z, u, admm_penalty,
                           errs, times_v, w). nat (maxiter - niter))") auto

declare admm_benchmark_loop.simps [simp del]

text \<open>The function \<^verbatim>\<open>admm_benchmark\<close> (lines 93 to 173), with the parameters in the order
  of the source, followed by the clock, the eigensolver and the environment at entry. The
  result is the returned \<^verbatim>\<open>niter\<close>, the final \<^verbatim>\<open>z\<close>, \<^verbatim>\<open>u\<close>, \<^verbatim>\<open>admm_penalty\<close>, \<^verbatim>\<open>errs\<close>
  and \<^verbatim>\<open>times\<close>, and the environment at return.\<close>

definition admm_benchmark ::
  "('m \<Rightarrow> 'm) \<Rightarrow> ('m \<Rightarrow> real \<Rightarrow> 'm) \<Rightarrow> real \<Rightarrow> 'm \<Rightarrow> 'm \<Rightarrow> 'm \<Rightarrow> 'm \<Rightarrow> real \<Rightarrow> real
     \<Rightarrow> int \<Rightarrow> real \<Rightarrow> real list \<Rightarrow> real list \<Rightarrow> int
     \<Rightarrow> (nat \<Rightarrow> real) \<Rightarrow> (int \<Rightarrow> 'm \<Rightarrow> 'm) \<Rightarrow> world
     \<Rightarrow> int \<times> ('m::real_normed_vector) \<times> 'm \<times> real \<times> real list \<times> real list \<times> world" where
  "admm_benchmark projection selection ndim input truth z u admm_penalty admm_adjust maxiter
       tolerance errs times_v verbose clock eigs_proj w =
     admm_benchmark_loop projection selection ndim input truth admm_adjust maxiter tolerance
       verbose clock eigs_proj 0 z u admm_penalty errs times_v w"

text \<open>What one iteration of the benchmark adds to the histories and to the environment,
  given the \<open>z\<close> it computed: used to state the lemmas on the loop.\<close>

definition benchmark_record ::
  "real \<Rightarrow> ('m::real_normed_vector) \<Rightarrow> int \<Rightarrow> (nat \<Rightarrow> real) \<Rightarrow> (int \<Rightarrow> 'm \<Rightarrow> 'm) \<Rightarrow> int \<Rightarrow> 'm
     \<Rightarrow> real list \<times> real list \<times> world \<Rightarrow> real list \<times> real list \<times> world" where
  "benchmark_record ndim truth verbose clock eigs_proj niter z h =
    (case h of (errs, times_v, w) \<Rightarrow>
       (errs @ [norm (eigs_proj (int_of_double ndim) z - truth)],
        times_v @ [clock (Suc (ticks w)) - clock (ticks w)],
        w\<lparr>ticks := Suc (Suc (ticks w)),
          trace := trace w @ (if verbose > 0 then [Rcout_iter niter] else [])
                    @ [Wall_time (clock (ticks w)), Wall_time (clock (Suc (ticks w))), Eigs_sym]\<rparr>))"

section \<open>The solver in binary64 arithmetic\<close>

text \<open>
  A second translation of \<^verbatim>\<open>admm\<close>, in which every operation on a \<^verbatim>\<open>double\<close> is rounded
  as IEEE-754 binary64 rounds it: to the nearest value, ties to the even one, with the
  subnormal numbers. A \<^verbatim>\<open>double\<close> is a \<open>real\<close> that is a finite binary64 value. An
  operation whose result is not a finite binary64 value (an overflow to an infinity, a
  division by zero, a NaN) gives \<open>None\<close>, and a run is not followed beyond it; the two
  zeros are not told apart.
\<close>

subsection \<open>Rounding\<close>

text \<open>
  The integer nearest to \<open>t\<close>, the even one of the two when \<open>t\<close> lies halfway.
\<close>

definition round_half_even :: "real \<Rightarrow> int" where
  "round_half_even t =
     (if frac t < 1 / 2 then \<lfloor>t\<rfloor>
      else if 1 / 2 < frac t then \<lceil>t\<rceil>
      else if even \<lfloor>t\<rfloor> then \<lfloor>t\<rfloor> else \<lceil>t\<rceil>)"

text \<open>
  The distance between neighbouring binary64 values at \<open>x\<close>: \<open>2 powi (e - 52)\<close> when
  \<open>2 powi e \<le> \<bar>x\<bar> < 2 powi (e + 1)\<close> (53 significant bits), and \<open>2 powi (- 1074)\<close> below
  the smallest normal number \<open>2 powi (- 1022)\<close>.
\<close>

definition b64_quantum :: "real \<Rightarrow> real" where
  "b64_quantum x =
     (if \<bar>x\<bar> < 2 powi (- 1022) then 2 powi (- 1074)
      else 2 powi (\<lfloor>log 2 \<bar>x\<bar>\<rfloor> - 52))"

text \<open>
  The binary64 value that the exact result \<open>x\<close> of an operation is rounded to; the
  result overflows when the rounded value reaches \<open>2 powi 1024\<close>.
\<close>

definition b64_round :: "real \<Rightarrow> real option" where
  "b64_round x =
     (let r = b64_quantum x * of_int (round_half_even (x / b64_quantum x))
      in if \<bar>r\<bar> < 2 powi 1024 then Some r else None)"

text \<open>
  The operators \<^verbatim>\<open>*\<close> and \<^verbatim>\<open>/\<close> of C++ on two values of type \<^verbatim>\<open>double\<close>.
\<close>

definition b64_times :: "real \<Rightarrow> real \<Rightarrow> real option" where
  "b64_times a b = b64_round (a * b)"

definition b64_divide :: "real \<Rightarrow> real \<Rightarrow> real option" where
  "b64_divide a b = (if b = 0 then None else b64_round (a / b))"

subsection \<open>The matrix library\<close>

text \<open>
  The operations of Armadillo that \<^verbatim>\<open>admm\<close> calls are parameters of the translation:
  \<open>mat_plus\<close> and \<open>mat_minus\<close> for \<^verbatim>\<open>+\<close> and \<^verbatim>\<open>-\<close> on two matrices, \<open>mat_div\<close> and
  \<open>mat_times\<close> for a matrix divided and multiplied by a \<^verbatim>\<open>double\<close>, \<open>mat_norm\<close> for
  \<^verbatim>\<open>arma::norm(., "fro")\<close>. Each gives \<open>None\<close> where its result is not followed.
\<close>

record 'm arma =
  mat_plus :: "'m \<Rightarrow> 'm \<Rightarrow> 'm option"
  mat_minus :: "'m \<Rightarrow> 'm \<Rightarrow> 'm option"
  mat_div :: "'m \<Rightarrow> real \<Rightarrow> 'm option"
  mat_times :: "'m \<Rightarrow> real \<Rightarrow> 'm option"
  mat_norm :: "'m \<Rightarrow> real option"

text \<open>
  The library on 1 x 1 matrices: a matrix is its single entry, the operations are the
  rounded operations on that entry, and the Frobenius norm is the absolute value of the
  entry, which is a binary64 value.
\<close>

definition arma_1x1 :: "real arma" where
  "arma_1x1 =
     \<lparr>mat_plus = (\<lambda>a b. b64_round (a + b)),
      mat_minus = (\<lambda>a b. b64_round (a - b)),
      mat_div = b64_divide,
      mat_times = b64_times,
      mat_norm = (\<lambda>a. Some \<bar>a\<bar>)\<rparr>"

subsection \<open>The function \<^verbatim>\<open>admm\<close>\<close>

text \<open>
  Lines 54 to 69. Line 57 is \<^verbatim>\<open>(z - u) + (input / admm_penalty)\<close> and line 65 is
  \<^verbatim>\<open>(u + x) - z\<close>, each operation rounded in turn; \<open>scale\<close> is the \<^verbatim>\<open>double\<close>
  \<^verbatim>\<open>1.0 / admm_penalty\<close> of line 62.
\<close>

definition admm_body_b64 ::
  "'m arma \<Rightarrow> ('m \<Rightarrow> 'm) \<Rightarrow> ('m \<Rightarrow> real \<Rightarrow> 'm) \<Rightarrow> 'm \<Rightarrow> 'm \<Rightarrow> 'm \<Rightarrow> real
     \<Rightarrow> 'm body_vals option" where
  "admm_body_b64 A projection selection input z u admm_penalty =
     do {
       let z_old = z;
       d \<leftarrow> mat_minus A z u;
       q \<leftarrow> mat_div A input admm_penalty;
       x \<leftarrow> mat_plus A d q;
       let x = projection x;
       z \<leftarrow> mat_plus A x u;
       scale \<leftarrow> b64_divide 1 admm_penalty;
       let z = selection z scale;
       t \<leftarrow> mat_plus A u x;
       u \<leftarrow> mat_minus A t z;
       e \<leftarrow> mat_minus A x z;
       rr \<leftarrow> mat_norm A e;
       e \<leftarrow> mat_minus A z z_old;
       n \<leftarrow> mat_norm A e;
       ss \<leftarrow> b64_times admm_penalty n;
       Some \<lparr>x_of = x, z_of = z, u_of = u, rr_of = rr, ss_of = ss\<rparr>
     }"

text \<open>
  Lines 78 to 84, with the products \<^verbatim>\<open>10.0 * ss\<close> and \<^verbatim>\<open>10.0 * rr\<close> rounded; the second
  product is computed only when the first test fails.
\<close>

definition penalty_adjustment_b64 ::
  "'m arma \<Rightarrow> real \<Rightarrow> real \<Rightarrow> real \<Rightarrow> real \<Rightarrow> 'm \<Rightarrow> (real \<times> 'm) option" where
  "penalty_adjustment_b64 A admm_adjust rr ss admm_penalty u =
     do {
       ten_ss \<leftarrow> b64_times 10 ss;
       if rr > ten_ss then
         do {
           p \<leftarrow> b64_times admm_penalty admm_adjust;
           v \<leftarrow> mat_div A u admm_adjust;
           Some (p, v)
         }
       else
         do {
           ten_rr \<leftarrow> b64_times 10 rr;
           if ss > ten_rr then
             do {
               p \<leftarrow> b64_divide admm_penalty admm_adjust;
               v \<leftarrow> mat_times A u admm_adjust;
               Some (p, v)
             }
           else Some (admm_penalty, u)
         }
     }"

text \<open>
  The loop of lines 52 to 85 and the function \<^verbatim>\<open>admm\<close>, as \<open>admm_loop\<close> and \<open>admm\<close> above.
\<close>

function admm_loop_b64 ::
  "'m arma \<Rightarrow> ('m \<Rightarrow> 'm) \<Rightarrow> ('m \<Rightarrow> real \<Rightarrow> 'm) \<Rightarrow> 'm \<Rightarrow> real \<Rightarrow> int \<Rightarrow> real
     \<Rightarrow> int \<Rightarrow> 'm \<Rightarrow> 'm \<Rightarrow> real \<Rightarrow> (int \<times> 'm \<times> 'm \<times> real) option" where
  "admm_loop_b64 A projection selection input admm_adjust maxiter tolerance
       niter z u admm_penalty =
    (if niter < maxiter then
       (case admm_body_b64 A projection selection input z u admm_penalty of
          None \<Rightarrow> None
        | Some b \<Rightarrow>
            if rr_of b < tolerance \<and> ss_of b < tolerance then
              Some (niter + 1, z_of b, u_of b, admm_penalty)
            else
              (case penalty_adjustment_b64 A admm_adjust (rr_of b) (ss_of b) admm_penalty
                      (u_of b) of
                 None \<Rightarrow> None
               | Some (admm_penalty, u) \<Rightarrow>
                   admm_loop_b64 A projection selection input admm_adjust maxiter tolerance
                     (niter + 1) (z_of b) u admm_penalty))
     else Some (niter, z, u, admm_penalty))"
  by pat_completeness auto
termination
  by (relation "measure (\<lambda>(A, projection, selection, input, admm_adjust, maxiter, tolerance,
                           niter, z, u, admm_penalty). nat (maxiter - niter))") auto

declare admm_loop_b64.simps [simp del]

definition admm_b64 ::
  "'m arma \<Rightarrow> ('m \<Rightarrow> 'm) \<Rightarrow> ('m \<Rightarrow> real \<Rightarrow> 'm) \<Rightarrow> 'm \<Rightarrow> 'm \<Rightarrow> 'm \<Rightarrow> real \<Rightarrow> real \<Rightarrow> int
     \<Rightarrow> real \<Rightarrow> (int \<times> 'm \<times> 'm \<times> real) option" where
  "admm_b64 A projection selection input z u admm_penalty admm_adjust maxiter tolerance =
     admm_loop_b64 A projection selection input admm_adjust maxiter tolerance
       0 z u admm_penalty"

section \<open>Properties of \<^verbatim>\<open>admm\<close>\<close>

subsection \<open>One turn of the loop\<close>

lemma admm_loop_exit:
  "\<not> niter < maxiter \<Longrightarrow>
   admm_loop projection selection input admm_adjust maxiter tolerance niter z u admm_penalty
     = (niter, z, u, admm_penalty)"
  by (simp add: admm_loop.simps)

lemma admm_loop_break:
  "niter < maxiter \<Longrightarrow>
   converged_from projection selection input tolerance (z, u, admm_penalty) \<Longrightarrow>
   admm_loop projection selection input admm_adjust maxiter tolerance niter z u admm_penalty
     = (niter + 1,
        z_of (admm_body projection selection input z u admm_penalty),
        u_of (admm_body projection selection input z u admm_penalty),
        admm_penalty)"
  by (subst admm_loop.simps) (simp add: converged_from_def Let_def)

lemma admm_loop_continue:
  "niter < maxiter \<Longrightarrow>
   \<not> converged_from projection selection input tolerance (z, u, admm_penalty) \<Longrightarrow>
   admm_loop projection selection input admm_adjust maxiter tolerance niter z u admm_penalty
     = (case admm_next projection selection input admm_adjust (z, u, admm_penalty) of
          (z', u', admm_penalty') \<Rightarrow>
            admm_loop projection selection input admm_adjust maxiter tolerance
              (niter + 1) z' u' admm_penalty')"
  by (subst admm_loop.simps)
     (auto simp add: converged_from_def admm_next_def Let_def split: prod.splits)

subsection \<open>A whole run\<close>

lemma admm_loop_from_continue:
  "niter < maxiter \<Longrightarrow> \<not> converged_from P S input tol s \<Longrightarrow>
   admm_loop_from P S input adj maxiter tol niter s =
   admm_loop_from P S input adj maxiter tol (niter + 1) (admm_next P S input adj s)"
  by (cases s) (simp add: admm_loop_from_def admm_loop_continue)

lemma admm_loop_from_run:
  "int k \<le> maxiter - niter \<Longrightarrow>
   \<forall>j<k. \<not> converged_from P S input tol ((admm_next P S input adj ^^ j) s) \<Longrightarrow>
   admm_loop_from P S input adj maxiter tol niter s =
   admm_loop_from P S input adj maxiter tol (niter + int k) ((admm_next P S input adj ^^ k) s)"
proof (induction k arbitrary: niter s)
  case 0
  then show ?case by simp
next
  case (Suc k)
  from Suc.prems(1) have lt: "niter < maxiter" by simp
  from Suc.prems(2) have nc: "\<not> converged_from P S input tol s"
    by (metis funpow_0 zero_less_Suc)
  have rest: "\<forall>j<k. \<not> converged_from P S input tol
                 ((admm_next P S input adj ^^ j) (admm_next P S input adj s))"
  proof (intro allI impI)
    fix j assume "j < k"
    then have "Suc j < Suc k" by simp
    with Suc.prems(2) have "\<not> converged_from P S input tol ((admm_next P S input adj ^^ Suc j) s)"
      by blast
    then show "\<not> converged_from P S input tol
                 ((admm_next P S input adj ^^ j) (admm_next P S input adj s))"
      by (simp add: funpow_swap1)
  qed
  from Suc.prems(1) have le: "int k \<le> maxiter - (niter + 1)" by simp
  have "admm_loop_from P S input adj maxiter tol niter s =
        admm_loop_from P S input adj maxiter tol (niter + 1) (admm_next P S input adj s)"
    using lt nc by (rule admm_loop_from_continue)
  also have "\<dots> = admm_loop_from P S input adj maxiter tol (niter + 1 + int k)
                    ((admm_next P S input adj ^^ k) (admm_next P S input adj s))"
    using le rest by (rule Suc.IH)
  finally show ?case by (simp add: funpow_swap1 ac_simps)
qed

lemma admm_run_break:
  assumes "int k < maxiter"
    and "\<forall>j<k. \<not> converged_at P S input z u rho adj tol j"
    and "converged_at P S input z u rho adj tol k"
  shows "admm P S input z u rho adj maxiter tol =
    (case admm_state_at P S input z u rho adj k of
       (z', u', rho') \<Rightarrow>
         (int k + 1, z_of (admm_body P S input z' u' rho'),
          u_of (admm_body P S input z' u' rho'), rho'))"
proof -
  have "admm P S input z u rho adj maxiter tol =
        admm_loop_from P S input adj maxiter tol 0 (z, u, rho)"
    by (simp add: admm_def admm_loop_from_def)
  also have "\<dots> = admm_loop_from P S input adj maxiter tol (0 + int k)
                 ((admm_next P S input adj ^^ k) (z, u, rho))"
    using assms(1,2) by (intro admm_loop_from_run) (simp_all add: converged_at_def admm_state_at_def)
  finally show ?thesis
    using assms(1,3)
    by (auto simp add: converged_at_def admm_state_at_def admm_loop_from_def admm_loop_break
             split: prod.splits)
qed

lemma admm_run_exhaust:
  assumes "\<forall>j. int j < maxiter \<longrightarrow> \<not> converged_at P S input z u rho adj tol j"
  shows "admm P S input z u rho adj maxiter tol =
    (case admm_state_at P S input z u rho adj (nat maxiter) of
       (z', u', rho') \<Rightarrow> (max 0 maxiter, z', u', rho'))"
proof (cases "0 \<le> maxiter")
  case True
  have "admm P S input z u rho adj maxiter tol =
        admm_loop_from P S input adj maxiter tol 0 (z, u, rho)"
    by (simp add: admm_def admm_loop_from_def)
  also have "\<dots> = admm_loop_from P S input adj maxiter tol (0 + int (nat maxiter))
                 ((admm_next P S input adj ^^ nat maxiter) (z, u, rho))"
    using assms True
    by (intro admm_loop_from_run) (simp_all add: converged_at_def admm_state_at_def)
  finally show ?thesis
    using True
    by (auto simp add: admm_state_at_def admm_loop_from_def admm_loop_exit max_def
             split: prod.splits)
next
  case False
  then show ?thesis
    by (simp add: admm_def admm_loop_exit admm_state_at_def max_def)
qed

lemma admm_count_cases:
  obtains (break) k where "int k < maxiter"
      and "\<forall>j<k. \<not> converged_at P S input z u rho adj tol j"
      and "converged_at P S input z u rho adj tol k"
    | (exhaust) "\<forall>j. int j < maxiter \<longrightarrow> \<not> converged_at P S input z u rho adj tol j"
proof (cases "\<exists>j. int j < maxiter \<and> converged_at P S input z u rho adj tol j")
  case True
  define k where "k = (LEAST j. int j < maxiter \<and> converged_at P S input z u rho adj tol j)"
  from True have a: "int k < maxiter \<and> converged_at P S input z u rho adj tol k"
    unfolding k_def by (rule LeastI_ex)
  have b: "\<forall>j<k. \<not> converged_at P S input z u rho adj tol j"
  proof (intro allI impI notI)
    fix j assume "j < k" and c: "converged_at P S input z u rho adj tol j"
    with a have "int j < maxiter \<and> converged_at P S input z u rho adj tol j" by simp
    then have "k \<le> j" unfolding k_def by (rule Least_le)
    with \<open>j < k\<close> show False by simp
  qed
  from a b show ?thesis using break by blast
next
  case False
  then show ?thesis using exhaust by blast
qed

subsection \<open>The penalty stays positive in exact arithmetic\<close>




section \<open>Properties of \<^verbatim>\<open>admm_benchmark\<close>\<close>

subsection \<open>One turn of the loop\<close>

lemma admm_benchmark_loop_exit:
  "\<not> niter < maxiter \<Longrightarrow>
   admm_benchmark_loop projection selection ndim input truth admm_adjust maxiter tolerance
       verbose clock eigs_proj niter z u admm_penalty errs times_v w
   = (niter, z, u, admm_penalty, errs, times_v, w)"
  by (simp add: admm_benchmark_loop.simps)

lemma admm_benchmark_loop_break:
  "niter < maxiter \<Longrightarrow>
   converged_from projection selection input tolerance (z, u, admm_penalty) \<Longrightarrow>
   admm_benchmark_loop projection selection ndim input truth admm_adjust maxiter tolerance
       verbose clock eigs_proj niter z u admm_penalty errs times_v w
   = (niter + 1,
      z_of (admm_body projection selection input z u admm_penalty),
      u_of (admm_body projection selection input z u admm_penalty),
      admm_penalty,
      benchmark_record ndim truth verbose clock eigs_proj niter
        (z_of (admm_body projection selection input z u admm_penalty)) (errs, times_v, w))"
  by (subst admm_benchmark_loop.simps)
     (simp add: converged_from_def admm_body_def benchmark_record_def get_wall_time_def Let_def)

lemma admm_benchmark_loop_continue:
  assumes lt: "niter < maxiter"
    and nc: "\<not> converged_from projection selection input tolerance (z, u, admm_penalty)"
  shows "admm_benchmark_loop projection selection ndim input truth admm_adjust maxiter tolerance
       verbose clock eigs_proj niter z u admm_penalty errs times_v w
   = (case admm_next projection selection input admm_adjust (z, u, admm_penalty) of
        (z', u', admm_penalty') \<Rightarrow>
          (case benchmark_record ndim truth verbose clock eigs_proj niter z' (errs, times_v, w) of
             (errs', times_v', w') \<Rightarrow>
               admm_benchmark_loop projection selection ndim input truth admm_adjust maxiter
                 tolerance verbose clock eigs_proj (niter + 1) z' u' admm_penalty'
                 errs' times_v' w'))"
proof -
  define x where "x = projection (z - u + input /\<^sub>R admm_penalty)"
  define z' where "z' = selection (x + u) (1 / admm_penalty)"
  have b: "admm_body projection selection input z u admm_penalty =
        \<lparr>x_of = x, z_of = z', u_of = u + x - z', rr_of = norm (x - z'),
         ss_of = admm_penalty * norm (z' - z)\<rparr>"
    by (simp add: admm_body_def Let_def x_def z'_def)
  from nc have nc': "\<not> (norm (x - z') < tolerance \<and> admm_penalty * norm (z' - z) < tolerance)"
    by (simp add: converged_from_def b)
  show ?thesis
    apply (subst admm_benchmark_loop.simps)
    apply (simp only: lt if_True Let_def get_wall_time_def prod.case)
    apply (fold x_def)
    apply (fold z'_def)
    apply (simp only: nc' if_False admm_next_def prod.case b Let_def penalty_adjustment_def
             benchmark_record_def body_vals.simps)
    apply (cases "10 * (admm_penalty * norm (z' - z)) < norm (x - z')";
           cases "10 * norm (x - z') < admm_penalty * norm (z' - z)";
           cases "0 < verbose"; simp)
    done
qed

subsection \<open>A whole run\<close>

lemma admm_benchmark_loop_core:
  "(case admm_benchmark_loop projection selection ndim input truth admm_adjust maxiter
           tolerance verbose clock eigs_proj niter z u admm_penalty errs times_v w of
      (n, z', u', admm_penalty', h) \<Rightarrow> (n, z', u', admm_penalty'))
   = admm_loop projection selection input admm_adjust maxiter tolerance niter z u admm_penalty"
proof (induction "nat (maxiter - niter)" arbitrary: niter z u admm_penalty errs times_v w)
  case 0
  then have "\<not> niter < maxiter" by simp
  then show ?case by (simp add: admm_loop_exit admm_benchmark_loop_exit)
next
  case (Suc m)
  then have lt: "niter < maxiter" by simp
  show ?case
  proof (cases "converged_from projection selection input tolerance (z, u, admm_penalty)")
    case True
    with lt show ?thesis by (simp add: admm_loop_break admm_benchmark_loop_break)
  next
    case False
    obtain z' u' admm_penalty' where nx:
      "admm_next projection selection input admm_adjust (z, u, admm_penalty)
         = (z', u', admm_penalty')"
      by (cases "admm_next projection selection input admm_adjust (z, u, admm_penalty)")
    obtain errs' times_v' w' where rc:
      "benchmark_record ndim truth verbose clock eigs_proj niter z' (errs, times_v, w)
         = (errs', times_v', w')"
      by (cases "benchmark_record ndim truth verbose clock eigs_proj niter z'
                   (errs, times_v, w)")
    from Suc.hyps(2) have m: "m = nat (maxiter - (niter + 1))" by simp
    show ?thesis
      using Suc.hyps(1) [OF m, where z = z' and u = u' and admm_penalty = admm_penalty'
          and errs = errs' and times_v = times_v' and w = w'] lt False
      by (simp add: admm_loop_continue admm_benchmark_loop_continue nx rc)
  qed
qed

lemma admm_benchmark_loop_history:
  "(case admm_benchmark_loop projection selection ndim input truth admm_adjust maxiter
           tolerance verbose clock eigs_proj niter z u admm_penalty errs times_v w of
      (n, z', u', admm_penalty', errs', times_v', w') \<Rightarrow>
        niter \<le> n
        \<and> errs' = errs @ drop (length errs) errs'
        \<and> length errs' = length errs + nat (n - niter)
        \<and> times_v' = times_v @
             map (\<lambda>i. clock (ticks w + 2 * i + 1) - clock (ticks w + 2 * i))
               [0..<nat (n - niter)]
        \<and> ticks w' = ticks w + 2 * nat (n - niter)
        \<and> trace w' = trace w @
             concat (map (\<lambda>i. (if verbose > 0 then [Rcout_iter (niter + int i)] else [])
                               @ [Wall_time (clock (ticks w + 2 * i)),
                                  Wall_time (clock (ticks w + 2 * i + 1)), Eigs_sym])
                       [0..<nat (n - niter)]))"
proof (induction "nat (maxiter - niter)" arbitrary: niter z u admm_penalty errs times_v w)
  case 0
  then have "\<not> niter < maxiter" by simp
  then show ?case by (simp add: admm_benchmark_loop_exit)
next
  case (Suc m)
  then have lt: "niter < maxiter" by simp
  show ?case
  proof (cases "converged_from projection selection input tolerance (z, u, admm_penalty)")
    case True
    with lt show ?thesis
      by (simp add: admm_benchmark_loop_break benchmark_record_def)
  next
    case False
    obtain z' u' admm_penalty' where nx:
      "admm_next projection selection input admm_adjust (z, u, admm_penalty)
         = (z', u', admm_penalty')"
      by (cases "admm_next projection selection input admm_adjust (z, u, admm_penalty)")
    define errs' where "errs' = errs @ [norm (eigs_proj (int_of_double ndim) z' - truth)]"
    define times_v' where "times_v' = times_v @ [clock (Suc (ticks w)) - clock (ticks w)]"
    define w' where "w' = w\<lparr>ticks := Suc (Suc (ticks w)),
          trace := trace w @ (if verbose > 0 then [Rcout_iter niter] else [])
                    @ [Wall_time (clock (ticks w)), Wall_time (clock (Suc (ticks w))), Eigs_sym]\<rparr>"
    have rc: "benchmark_record ndim truth verbose clock eigs_proj niter z' (errs, times_v, w)
         = (errs', times_v', w')"
      by (simp add: benchmark_record_def errs'_def times_v'_def w'_def)
    from Suc.hyps(2) have m: "m = nat (maxiter - (niter + 1))" by simp
    obtain n zf uf pf ef tf wf where res:
      "admm_benchmark_loop projection selection ndim input truth admm_adjust maxiter
           tolerance verbose clock eigs_proj (niter + 1) z' u' admm_penalty' errs' times_v' w'
        = (n, zf, uf, pf, ef, tf, wf)"
      by (cases "admm_benchmark_loop projection selection ndim input truth admm_adjust maxiter
           tolerance verbose clock eigs_proj (niter + 1) z' u' admm_penalty' errs' times_v' w'")
    have ih: "niter + 1 \<le> n"
        "length ef = length errs' + nat (n - (niter + 1))"
        "ef = errs' @ drop (length errs') ef"
        "tf = times_v' @
             map (\<lambda>i. clock (ticks w' + 2 * i + 1) - clock (ticks w' + 2 * i))
               [0..<nat (n - (niter + 1))]"
        "ticks wf = ticks w' + 2 * nat (n - (niter + 1))"
        "trace wf = trace w' @
             concat (map (\<lambda>i. (if verbose > 0 then [Rcout_iter (niter + 1 + int i)] else [])
                               @ [Wall_time (clock (ticks w' + 2 * i)),
                                  Wall_time (clock (ticks w' + 2 * i + 1)), Eigs_sym])
                       [0..<nat (n - (niter + 1))])"
      using Suc.hyps(1) [OF m, where z = z' and u = u' and admm_penalty = admm_penalty'
          and errs = errs' and times_v = times_v' and w = w'] by (simp_all add: res)
    from ih(1) have k: "nat (n - niter) = Suc (nat (n - (niter + 1)))" by simp
    have full: "admm_benchmark_loop projection selection ndim input truth admm_adjust maxiter
           tolerance verbose clock eigs_proj niter z u admm_penalty errs times_v w
        = (n, zf, uf, pf, ef, tf, wf)"
      using lt False by (simp add: admm_benchmark_loop_continue nx rc res)
    have e1: "ef = errs @ drop (length errs) ef"
      using ih(3) by (metis append_eq_conv_conj errs'_def append.assoc)
    have t1: "tf = times_v @
             map (\<lambda>i. clock (ticks w + 2 * i + 1) - clock (ticks w + 2 * i))
               [0..<nat (n - niter)]"
      unfolding k map_upt_Suc using ih(4) by (simp add: times_v'_def w'_def)
    have tr: "trace wf = trace w @
             concat (map (\<lambda>i. (if verbose > 0 then [Rcout_iter (niter + int i)] else [])
                               @ [Wall_time (clock (ticks w + 2 * i)),
                                  Wall_time (clock (ticks w + 2 * i + 1)), Eigs_sym])
                       [0..<nat (n - niter)])"
      unfolding k map_upt_Suc using ih(6) by (simp add: w'_def ac_simps)
    show ?thesis
      unfolding full using ih(1,2,5) e1 t1 tr by (simp add: errs'_def w'_def k)
  qed
qed

section \<open>Properties of the binary64 model\<close>

subsection \<open>Rounding\<close>

lemma round_half_even_of_int [simp]: "round_half_even (of_int n) = n"
  by (simp add: round_half_even_def)




lemma b64_quantum_normal:
  assumes "2 powi e \<le> \<bar>x\<bar>" and "\<bar>x\<bar> < 2 powi (e + 1)" and "- 1022 \<le> e"
  shows "b64_quantum x = 2 powi (e - 52)"
proof -
  have pos: "0 < \<bar>x\<bar>"
    using assms(1) by (smt (verit) zero_less_power_int)
  have "(2::real) powi (- 1022) \<le> 2 powi e"
    using assms(3) by (intro power_int_increasing) simp_all
  with assms(1) have big: "\<not> \<bar>x\<bar> < 2 powi (- 1022)" by linarith
  have p1: "(2::real) powr (of_int e) = 2 powi e"
    by (simp add: powr_real_of_int')
  have p2: "(2::real) powr (of_int e + 1) = 2 powi (e + 1)"
    using powr_real_of_int' [of 2 "e + 1"] by simp
  have "\<lfloor>log 2 \<bar>x\<bar>\<rfloor> = e"
    using assms(1,2) pos by (simp add: floor_log_eq_powr_iff p1 p2)
  with big show ?thesis by (simp add: b64_quantum_def)
qed


lemma round_half_even_zero [simp]: "round_half_even 0 = 0"
  using round_half_even_of_int [of 0] by simp

lemma b64_round_zero [simp]: "b64_round 0 = Some 0"
  by (simp add: b64_round_def Let_def)

lemma b64_round_normal:
  assumes "2 powi e \<le> \<bar>x\<bar>" and "\<bar>x\<bar> < 2 powi (e + 1)" and "- 1022 \<le> e"
  shows "b64_round x =
    (let r = 2 powi (e - 52) * of_int (round_half_even (x / 2 powi (e - 52)))
     in if \<bar>r\<bar> < 2 powi 1024 then Some r else None)"
  by (simp add: b64_round_def b64_quantum_normal [OF assms])

lemma b64_round_power_int:
  assumes "- 1022 \<le> k" and "k \<le> 1023"
  shows "b64_round (2 powi k) = Some (2 powi k)"
proof -
  have lt: "(2::real) powi k < 2 powi (k + 1)"
    by (intro power_int_strict_increasing) simp_all
  have "(2::real) powi k / 2 powi (k - 52) = 2 powi (k - (k - 52))"
    by (subst power_int_diff [of 2 k "k - 52"]) simp_all
  then have q: "(2::real) powi k / 2 powi (k - 52) = of_int (2 ^ 52)"
    by simp
  have "(2::real) powi (k - 52) * 2 powi 52 = 2 powi (k - 52 + 52)"
    by (subst power_int_add [of 2 "k - 52" 52]) simp_all
  then have r: "(2::real) powi (k - 52) * of_int (2 ^ 52) = 2 powi k"
    by simp
  have b: "(2::real) powi k < 2 powi 1024"
    using assms(2) by (intro power_int_strict_increasing) simp_all
  have "b64_round (2 powi k) =
    (let r = 2 powi (k - 52) * of_int (round_half_even (2 powi k / 2 powi (k - 52)))
     in if \<bar>r\<bar> < 2 powi 1024 then Some r else None)"
    using lt assms(1) by (intro b64_round_normal) simp_all
  also have "\<dots> = Some (2 powi k)"
    unfolding q round_half_even_of_int r Let_def using b by simp
  finally show ?thesis .
qed


lemma b64_round_to:
  assumes "2 powi e \<le> \<bar>x\<bar>" and "\<bar>x\<bar> < 2 powi (e + 1)" and "- 1022 \<le> e"
    and "round_half_even (x / 2 powi (e - 52)) = m"
    and "r = 2 powi (e - 52) * of_int m"
    and "\<bar>r\<bar> < 2 powi 1024"
  shows "b64_round x = Some r"
  using assms(4,5,6) by (simp add: b64_round_normal [OF assms(1,2,3)])

lemma b64_round_exact:
  assumes "2 powi e \<le> \<bar>x\<bar>" and "\<bar>x\<bar> < 2 powi (e + 1)" and "- 1022 \<le> e" and "e \<le> 1023"
    and "x = of_int m * 2 powi (e - 52)"
  shows "b64_round x = Some x"
proof -
  have "(2::real) powi (e + 1) \<le> 2 powi 1024"
    using assms(4) by (intro power_int_increasing) simp_all
  with assms(2) have b: "\<bar>x\<bar> < 2 powi 1024" by linarith
  have "x / 2 powi (e - 52) = of_int m"
    using assms(5) by simp
  then have m: "round_half_even (x / 2 powi (e - 52)) = m" by simp
  have r: "x = 2 powi (e - 52) * of_int m"
    using assms(5) by simp
  from assms(1,2,3) m r b show ?thesis by (rule b64_round_to)
qed

subsection \<open>The penalty is never negative\<close>





section \<open>Evaluation on concrete inputs\<close>

lemmas admm_eval = admm_state_at_def admm_next_def admm_body_def penalty_adjustment_def
  converged_at_def converged_from_def Let_def

lemmas bench_eval = admm_benchmark_def admm_benchmark_loop_continue admm_benchmark_loop_break
  admm_benchmark_loop_exit converged_from_def admm_body_def admm_next_def
  penalty_adjustment_def benchmark_record_def int_of_double_def Let_def

text \<open>A run of the instrumented solver on 1 x 1 matrices with identity operators, zero
  input, \<open>z = 0\<close>, \<open>u = 5\<close>, penalty 1, factor 2, tolerance 1: the first iteration has
  \<open>r = 5\<close>, \<open>s = 0\<close> and doubles the penalty, the second has \<open>r = s = 0\<close> and stops.
  The histories hold one entry each at entry, and the \<open>k\<close>-th clock reading is \<open>k\<^sup>2\<close>.\<close>

lemma admm_benchmark_example:
  "admm_benchmark (\<lambda>x. x) (\<lambda>z s. z) 1 (0::real) 3 0 5 1 2 50 1 [7] [8] 1
      (\<lambda>k. (real k)\<^sup>2) (\<lambda>k z. z) \<lparr>ticks = 0, trace = []\<rparr>
   = (2, 0, 0, 2, [7, 3, 3], [8, 1, 5],
      \<lparr>ticks = 4,
       trace = [Rcout_iter 0, Wall_time 0, Wall_time 1, Eigs_sym,
                Rcout_iter 1, Wall_time 4, Wall_time 9, Eigs_sym]\<rparr>)"
  by (simp add: bench_eval)

subsection \<open>Runs in binary64 arithmetic\<close>

lemmas b64_defs = admm_body_b64_def penalty_adjustment_b64_def arma_1x1_def b64_divide_def
  b64_times_def

lemma b64_round_one [simp]: "b64_round 1 = Some 1"
  using b64_round_power_int [of 0] by simp

lemma b64_round_ten [simp]: "b64_round 10 = Some 10"
  by (rule b64_round_exact [of 3 10 "10 * 2 ^ 49"]) (simp_all add: power_int_def power_divide)






text \<open>
  The roundings of a warm start with identity operators, input \<open>3 / 2 ^ 24\<close>, penalty 1,
  factor 2 and tolerance \<open>7 / 2 ^ 25\<close>, from \<open>z = 2 ^ 30\<close> and \<open>u = 1 / 2 ^ 23\<close>.
\<close>

lemma b64_round_ws_a: "b64_round (9007199254740991 / 8388608) = Some (9007199254740991 / 8388608)"
  by (rule b64_round_exact [of "29" _ "9007199254740991"]) (simp_all add: power_int_def power_divide)

lemma b64_round_ws_b: "b64_round (3 / 16777216) = Some (3 / 16777216)"
  by (rule b64_round_exact [of "-23" _ "6755399441055744"]) (simp_all add: power_int_def power_divide)

lemma b64_round_ws_c: "b64_round (18014398509481985 / 16777216) = Some (1073741824)"
  by (rule b64_round_to [of "30" _ "4503599627370496"])
     (simp_all add: power_int_def power_divide round_half_even_def frac_def)

lemma b64_round_ws_d: "b64_round (9007199254740993 / 8388608) = Some (1073741824)"
  by (rule b64_round_to [of "30" _ "4503599627370496"])
     (simp_all add: power_int_def power_divide round_half_even_def frac_def)

lemma b64_round_ws_e: "b64_round (1073741824) = Some (1073741824)"
  by (rule b64_round_exact [of "30" _ "4503599627370496"]) (simp_all add: power_int_def power_divide)

lemma b64_round_ws_f: "b64_round (18014398509481987 / 16777216) = Some (4503599627370497 / 4194304)"
  by (rule b64_round_to [of "30" _ "4503599627370497"])
     (simp_all add: power_int_def power_divide round_half_even_def frac_def)

lemma b64_round_ws_g: "b64_round (4503599627370497 / 4194304) = Some (4503599627370497 / 4194304)"
  by (rule b64_round_exact [of "30" _ "4503599627370497"]) (simp_all add: power_int_def power_divide)

lemma b64_round_ws_h: "b64_round (1 / 4194304) = Some (1 / 4194304)"
  by (rule b64_round_exact [of "-22" _ "4503599627370496"]) (simp_all add: power_int_def power_divide)

lemma b64_round_ws_i: "b64_round (5 / 2097152) = Some (5 / 2097152)"
  by (rule b64_round_exact [of "-19" _ "5629499534213120"]) (simp_all add: power_int_def power_divide)

lemma b64_round_ws_j: "b64_round (1 / 2) = Some (1 / 2)"
  by (rule b64_round_exact [of "-1" _ "4503599627370496"]) (simp_all add: power_int_def power_divide)

lemma b64_round_ws_k: "b64_round (3 / 8388608) = Some (3 / 8388608)"
  by (rule b64_round_exact [of "-22" _ "6755399441055744"]) (simp_all add: power_int_def power_divide)

lemma b64_round_ws_l: "b64_round (9007199254740997 / 8388608) = Some (2251799813685249 / 2097152)"
  by (rule b64_round_to [of "30" _ "4503599627370498"])
     (simp_all add: power_int_def power_divide round_half_even_def frac_def)

lemma b64_round_ws_m: "b64_round (2251799813685249 / 2097152) = Some (2251799813685249 / 2097152)"
  by (rule b64_round_exact [of "30" _ "4503599627370498"]) (simp_all add: power_int_def power_divide)

lemma b64_round_ws_n: "b64_round (2) = Some (2)"
  by (rule b64_round_exact [of "1" _ "4503599627370496"]) (simp_all add: power_int_def power_divide)

lemma b64_round_ws_o: "b64_round (1 / 8388608) = Some (1 / 8388608)"
  by (rule b64_round_exact [of "-23" _ "4503599627370496"]) (simp_all add: power_int_def power_divide)

lemmas warm_start_roundings = b64_round_ws_a b64_round_ws_b b64_round_ws_c b64_round_ws_d b64_round_ws_e b64_round_ws_f b64_round_ws_g b64_round_ws_h b64_round_ws_i b64_round_ws_j b64_round_ws_k b64_round_ws_l b64_round_ws_m b64_round_ws_n b64_round_ws_o

lemma admm_body_b64_warm_start_run: "admm_body_b64 arma_1x1 (\<lambda>x. x) (\<lambda>z s. z) (3 / 2 ^ 24) (2 ^ 30) (1 / 2 ^ 23) 1
   = Some \<lparr>x_of = 2 ^ 30, z_of = 2 ^ 30, u_of = 0, rr_of = 0, ss_of = 0\<rparr>"
  by (simp add: b64_defs warm_start_roundings)

lemma admm_b64_warm_start_run: "admm_b64 arma_1x1 (\<lambda>x. x) (\<lambda>z s. z) (3 / 2 ^ 24) (2 ^ 30) 0 1 2 50 (7 / 2 ^ 25)
   = Some (2, 2 ^ 30 + 1 / 2 ^ 21, 0, 1 / 2)"
  by (simp add: admm_b64_def admm_loop_b64.simps b64_defs warm_start_roundings)

section \<open>The claims\<close>

text \<open>
  The claims are those of the specification, with its names: \<^verbatim>\<open>solve\<close> is \<^verbatim>\<open>admm\<close>,
  \<^verbatim>\<open>solveInstrumented\<close> is \<^verbatim>\<open>admm_benchmark\<close>, \<open>r\<close> and \<open>s\<close> are \<^verbatim>\<open>rr\<close> and \<^verbatim>\<open>ss\<close>,
  \<open>\<rho>\<close> is \<^verbatim>\<open>admm_penalty\<close> and the adjustment factor is \<^verbatim>\<open>admm_adjust\<close>. Claims
  C1, C2, C4, C5, C6, C9 and C10 are about the control flow and the order of the steps;
  C3 uses that a norm is not negative; C7 and C8 depend on how the arithmetic rounds, and
  are settled with the exact model and the binary64 model side by side.
\<close>

text \<open>
  Claim C1. Whenever the loop of \<^verbatim>\<open>admm\<close> is entered with the counter below \<^verbatim>\<open>maxiter\<close>
  (for the first iteration of a call: whenever \<^verbatim>\<open>maxiter\<close> is positive), the iteration
  computes, from the \<open>z\<close>, \<open>u\<close> and penalty it starts with: the projected point
  \<open>x = projection (z - u + input / penalty)\<close>; then \<open>z' = selection (x + u) (1 / penalty)\<close>
  from that \<open>x\<close> and the old \<open>u\<close>; then \<open>u' = u + x - z'\<close> from the new \<open>z'\<close>; then the
  residuals \<open>r = \<parallel>x - z'\<parallel>\<close> and \<open>s = penalty * \<parallel>z' - z\<parallel>\<close>, where the last \<open>z\<close> is the
  snapshot taken before the iteration. The test and the penalty adjustment that follow
  work on these values.
\<close>

theorem admm_iteration_steps:
  assumes "niter < maxiter"
  shows "admm_loop projection selection input admm_adjust maxiter tolerance
           niter z u admm_penalty =
    (let x = projection (z - u + input /\<^sub>R admm_penalty);
         z' = selection (x + u) (1 / admm_penalty);
         u' = u + x - z';
         r = norm (x - z');
         s = admm_penalty * norm (z' - z)
     in if r < tolerance \<and> s < tolerance then (niter + 1, z', u', admm_penalty)
        else admm_loop projection selection input admm_adjust maxiter tolerance (niter + 1) z'
               (snd (penalty_adjustment admm_adjust r s admm_penalty u'))
               (fst (penalty_adjustment admm_adjust r s admm_penalty u')))"
proof (cases "converged_from projection selection input tolerance (z, u, admm_penalty)")
  case True
  have "admm_loop projection selection input admm_adjust maxiter tolerance
           niter z u admm_penalty
        = (niter + 1, z_of (admm_body projection selection input z u admm_penalty),
           u_of (admm_body projection selection input z u admm_penalty), admm_penalty)"
    using assms True by (rule admm_loop_break)
  with True show ?thesis
    by (simp add: converged_from_def admm_body_def Let_def)
next
  case False
  have "admm_loop projection selection input admm_adjust maxiter tolerance
           niter z u admm_penalty
        = (case admm_next projection selection input admm_adjust (z, u, admm_penalty) of
            (z', u', admm_penalty') \<Rightarrow>
              admm_loop projection selection input admm_adjust maxiter tolerance
                (niter + 1) z' u' admm_penalty')"
    using assms False by (rule admm_loop_continue)
  with False show ?thesis
    by (auto simp add: converged_from_def admm_next_def admm_body_def Let_def)
qed

text \<open>
  The theorem at a first iteration with \<open>projection x = x / 2\<close> and
  \<open>selection z s = z - s\<close>: from \<open>z = 4\<close>, \<open>u = 1\<close>, penalty 3 and input 6 the
  iteration gives \<open>x = 5/2\<close>, \<open>z' = 19/6\<close>, \<open>u' = 1/3\<close>, \<open>r = 2/3\<close>, \<open>s = 5/2\<close>; with
  tolerance 1 the loop goes on, and the penalty stays (dead zone).
\<close>

theorem admm_iteration_steps_witness:
  "(0::int) < 2 \<and>
   admm_loop (\<lambda>x. x / 2) (\<lambda>z s. z - s) (6::real) 2 2 1 0 4 1 3
     = admm_loop (\<lambda>x. x / 2) (\<lambda>z s. z - s) (6::real) 2 2 1 1 (19/6) (1/3) 3"
  using admm_iteration_steps [of 0 2 "\<lambda>x. x / 2" "\<lambda>z s. z - s" "6::real" 2 1 4 1 3]
  by (simp add: penalty_adjustment_def Let_def)

text \<open>
  Claim C2. If iteration \<open>k\<close> of a call of \<^verbatim>\<open>admm\<close> is reached (\<open>k\<close> is below \<^verbatim>\<open>maxiter\<close>
  and no earlier iteration passed the test) and its residuals are both strictly below the
  tolerance, the call ends in that iteration: it returns \<open>k + 1\<close> (the counter is
  incremented once more), \<^verbatim>\<open>z\<close> and \<^verbatim>\<open>u\<close> are the ones that iteration computed, with no
  penalty adjustment of \<^verbatim>\<open>u\<close>, and the penalty is the one the iteration started with.
\<close>

theorem admm_stops_when_converged:
  assumes "int k < maxiter"
    and "\<forall>j<k. \<not> converged_at projection selection input z u admm_penalty admm_adjust tolerance j"
    and "converged_at projection selection input z u admm_penalty admm_adjust tolerance k"
  shows "admm projection selection input z u admm_penalty admm_adjust maxiter tolerance =
    (case admm_state_at projection selection input z u admm_penalty admm_adjust k of
       (z\<^sub>k, u\<^sub>k, penalty\<^sub>k) \<Rightarrow>
         (int k + 1,
          z_of (admm_body projection selection input z\<^sub>k u\<^sub>k penalty\<^sub>k),
          u_of (admm_body projection selection input z\<^sub>k u\<^sub>k penalty\<^sub>k),
          penalty\<^sub>k))"
  using assms by (rule admm_run_break)

text \<open>
  The theorem at \<open>k = 1\<close>: identity operators, zero input, \<open>z = 0\<close>, \<open>u = 5\<close>,
  penalty 1, factor 2, tolerance 1. Iteration 0 has \<open>r = 5\<close> and does not pass; iteration 1
  has \<open>r = s = 0\<close>, and the call returns 2 of the 50 iterations allowed.
\<close>

theorem admm_stops_when_converged_witness:
  "int (Suc 0) < 50
   \<and> \<not> converged_at (\<lambda>x. x) (\<lambda>z s. z) (0::real) 0 5 1 2 1 0
   \<and> converged_at (\<lambda>x. x) (\<lambda>z s. z) (0::real) 0 5 1 2 1 (Suc 0)
   \<and> admm (\<lambda>x. x) (\<lambda>z s. z) (0::real) 0 5 1 2 50 1 = (2, 0, 0, 2)"
proof -
  have a: "int (Suc 0) < 50" by simp
  have b: "\<forall>j<Suc 0. \<not> converged_at (\<lambda>x. x) (\<lambda>z s. z) (0::real) 0 5 1 2 1 j"
    by (simp add: admm_eval)
  have c: "converged_at (\<lambda>x. x) (\<lambda>z s. z) (0::real) 0 5 1 2 1 (Suc 0)"
    by (simp add: admm_eval)
  show ?thesis
    using a b c admm_stops_when_converged [OF a b c] by (simp add: admm_eval)
qed



text \<open>
  Claim C4, as amended. The count \<open>n\<close> that \<^verbatim>\<open>admm\<close> returns satisfies
  \<open>0 \<le> n \<le> max 0 maxiter\<close>, so it is at most \<^verbatim>\<open>maxiter\<close> whenever \<^verbatim>\<open>maxiter\<close> is not
  negative. It equals \<^verbatim>\<open>maxiter\<close> only when no iteration before the last permitted one
  passes the convergence test: if iteration \<open>j\<close> passes it and \<open>j + 1 < maxiter\<close>, the call
  returns less than \<^verbatim>\<open>maxiter\<close>. So a return of \<^verbatim>\<open>maxiter\<close> means that the budget ran out
  without convergence, or that the test was first passed in the last permitted iteration.
  And \<open>n\<close> is below \<^verbatim>\<open>maxiter\<close> only if the last iteration executed, iteration \<open>n - 1\<close>
  counted from 0, passed the test.
\<close>

theorem admm_count_bounds:
  "0 \<le> fst (admm projection selection input z u admm_penalty admm_adjust maxiter tolerance)
   \<and> fst (admm projection selection input z u admm_penalty admm_adjust maxiter tolerance)
       \<le> max 0 maxiter
   \<and> (\<forall>j. int j + 1 < maxiter \<longrightarrow>
          converged_at projection selection input z u admm_penalty admm_adjust tolerance j \<longrightarrow>
          fst (admm projection selection input z u admm_penalty admm_adjust maxiter tolerance)
            < maxiter)
   \<and> (fst (admm projection selection input z u admm_penalty admm_adjust maxiter tolerance)
         < maxiter \<longrightarrow>
       0 < fst (admm projection selection input z u admm_penalty admm_adjust maxiter tolerance)
       \<and> converged_at projection selection input z u admm_penalty admm_adjust tolerance
           (nat (fst (admm projection selection input z u admm_penalty admm_adjust maxiter
                        tolerance) - 1)))"
proof (cases rule: admm_count_cases
    [of maxiter projection selection input z u admm_penalty admm_adjust tolerance])
  case (break k)
  have n: "fst (admm projection selection input z u admm_penalty admm_adjust maxiter tolerance)
          = int k + 1"
    using admm_run_break [OF break] by (simp split: prod.splits)
  have early: "int k + 1 < maxiter"
    if "int j + 1 < maxiter"
      and "converged_at projection selection input z u admm_penalty admm_adjust tolerance j"
    for j
  proof -
    from that(2) break(2) have "\<not> j < k" by blast
    with that(1) show ?thesis by simp
  qed
  from n break early show ?thesis by simp
next
  case exhaust
  have n: "fst (admm projection selection input z u admm_penalty admm_adjust maxiter tolerance)
          = max 0 maxiter"
    using admm_run_exhaust [OF exhaust] by (simp split: prod.splits)
  have never: "\<not> converged_at projection selection input z u admm_penalty admm_adjust
                   tolerance j"
    if "int j + 1 < maxiter" for j
    using exhaust that by simp
  from n never show ?thesis by auto
qed

text \<open>
  The theorem on the run of the witness of C2, with a budget of 50: iteration 1 passes the
  test and is not the last permitted one, the call returns 2, which is below 50, and the
  last iteration executed, iteration 1, passed the test.
\<close>

theorem admm_count_bounds_witness:
  "int (Suc 0) + 1 < 50
   \<and> converged_at (\<lambda>x. x) (\<lambda>z s. z) (0::real) 0 5 1 2 1 (Suc 0)
   \<and> fst (admm (\<lambda>x. x) (\<lambda>z s. z) (0::real) 0 5 1 2 50 1) = 2
   \<and> (2::int) < 50
   \<and> converged_at (\<lambda>x. x) (\<lambda>z s. z) (0::real) 0 5 1 2 1 (nat (2 - 1))"
proof -
  have b: "\<forall>j<Suc 0. \<not> converged_at (\<lambda>x. x) (\<lambda>z s. z) (0::real) 0 5 1 2 1 j"
    by (simp add: admm_eval)
  have c: "converged_at (\<lambda>x. x) (\<lambda>z s. z) (0::real) 0 5 1 2 1 (Suc 0)"
    by (simp add: admm_eval)
  have n: "fst (admm (\<lambda>x. x) (\<lambda>z s. z) (0::real) 0 5 1 2 50 1) = 2"
    using admm_run_break [of "Suc 0" 50, OF _ b c] by (simp add: admm_eval)
  show ?thesis
    using n c admm_count_bounds [of "\<lambda>x. x" "\<lambda>z s. z" "0::real" 0 5 1 2 50 1] by simp
qed

text \<open>
  Claim C4 as stated (the count is at most \<^verbatim>\<open>maxiter\<close>, and equals it only when the budget
  ran out without convergence) fails: with \<^verbatim>\<open>maxiter = 1\<close>, zero matrices and identity
  operators, the only iteration has \<open>r = s = 0\<close> and passes the test, line 73 increments
  the counter to 1, and the call returns 1, which is \<^verbatim>\<open>maxiter\<close>.
\<close>

theorem admm_count_counterexample:
  "\<not> (fst (admm (\<lambda>x. x) (\<lambda>z s. z) (0::real) 0 0 1 2 1 (1 / 10 ^ 6)) \<le> 1
      \<and> (fst (admm (\<lambda>x. x) (\<lambda>z s. z) (0::real) 0 0 1 2 1 (1 / 10 ^ 6)) = 1 \<longrightarrow>
           \<not> converged_at (\<lambda>x. x) (\<lambda>z s. z) (0::real) 0 0 1 2 (1 / 10 ^ 6) 0))"
proof -
  have c: "converged_at (\<lambda>x. x) (\<lambda>z s. z) (0::real) 0 0 1 2 (1 / 10 ^ 6) 0"
    by (simp add: admm_eval)
  have "admm (\<lambda>x. x) (\<lambda>z s. z) (0::real) 0 0 1 2 1 (1 / 10 ^ 6) = (1, 0, 0, 1)"
    using admm_run_break [of 0 1, OF _ _ c] by (simp add: admm_eval)
  with c show ?thesis by simp
qed

text \<open>
  The bound itself also needs \<^verbatim>\<open>maxiter\<close> not to be negative: the loop condition of
  line 52 fails at once and the call returns 0, which is above \<^verbatim>\<open>maxiter = -1\<close>.
\<close>

lemma admm_negative_budget:
  "fst (admm (\<lambda>x. x) (\<lambda>z s. z) (0::real) 0 0 1 2 (-1) (1 / 10 ^ 6)) = 0
   \<and> \<not> fst (admm (\<lambda>x. x) (\<lambda>z s. z) (0::real) 0 0 1 2 (-1) (1 / 10 ^ 6)) \<le> -1"
  by (simp add: admm_def admm_loop_exit)

text \<open>
  Claim C5. \<^verbatim>\<open>admm_benchmark\<close> and \<^verbatim>\<open>admm\<close> run the same iteration: for all operators,
  inputs and parameters, for every clock, eigensolver result, target rank, ground truth,
  verbosity and initial histories, the instrumented call returns the same count and
  leaves the same \<^verbatim>\<open>z\<close>, \<^verbatim>\<open>u\<close> and penalty as the plain call, and the histories it
  returns extend the ones it was given. (The loop body of the benchmark is translated on
  its own, from lines 108 to 170. The eigensolver and the matrix operations are taken to
  return normally.)
\<close>

theorem admm_benchmark_same_iterates:
  "(case admm_benchmark projection selection ndim input truth z u admm_penalty admm_adjust
           maxiter tolerance errs times_v verbose clock eigs_proj w of
      (n, z', u', admm_penalty', errs', times_v', w') \<Rightarrow>
        (n, z', u', admm_penalty') =
          admm projection selection input z u admm_penalty admm_adjust maxiter tolerance
        \<and> take (length errs) errs' = errs
        \<and> take (length times_v) times_v' = times_v)"
proof -
  obtain n z' u' p' errs' times_v' w' where res:
    "admm_benchmark_loop projection selection ndim input truth admm_adjust maxiter
         tolerance verbose clock eigs_proj 0 z u admm_penalty errs times_v w
       = (n, z', u', p', errs', times_v', w')"
    by (cases "admm_benchmark_loop projection selection ndim input truth admm_adjust maxiter
         tolerance verbose clock eigs_proj 0 z u admm_penalty errs times_v w")
  have core: "(n, z', u', p') =
      admm projection selection input z u admm_penalty admm_adjust maxiter tolerance"
    using admm_benchmark_loop_core [where projection = projection and selection = selection
        and ndim = ndim and input = input and truth = truth and admm_adjust = admm_adjust
        and maxiter = maxiter and tolerance = tolerance and verbose = verbose and clock = clock
        and eigs_proj = eigs_proj and niter = 0 and z = z and u = u
        and admm_penalty = admm_penalty and errs = errs and times_v = times_v and w = w]
    by (simp add: res admm_def)
  have hist: "errs' = errs @ drop (length errs) errs'"
     "times_v' = times_v @
             map (\<lambda>i. clock (ticks w + 2 * i + 1) - clock (ticks w + 2 * i)) [0..<nat (n - 0)]"
    using admm_benchmark_loop_history [where projection = projection and selection = selection
        and ndim = ndim and input = input and truth = truth and admm_adjust = admm_adjust
        and maxiter = maxiter and tolerance = tolerance and verbose = verbose and clock = clock
        and eigs_proj = eigs_proj and niter = 0 and z = z and u = u
        and admm_penalty = admm_penalty and errs = errs and times_v = times_v and w = w]
    by (simp_all add: res)
  have "take (length errs) errs' = errs"
    using hist(1) by (metis append_eq_conv_conj)
  moreover have "take (length times_v) times_v' = times_v"
    using hist(2) by (metis append_eq_conv_conj)
  ultimately show ?thesis using core by (simp add: admm_benchmark_def res)
qed

text \<open>
  Claim C6, as amended. Every executed iteration of \<^verbatim>\<open>admm_benchmark\<close>, the one that
  passes the convergence test included, appends one entry to \<^verbatim>\<open>times\<close> and one to
  \<^verbatim>\<open>errs\<close>: after a call each history is longer than it was at entry by the returned
  count. The lengths equal the returned count when the caller passes empty histories.
\<close>

theorem admm_benchmark_history_growth:
  "(case admm_benchmark projection selection ndim input truth z u admm_penalty admm_adjust
           maxiter tolerance errs times_v verbose clock eigs_proj w of
      (n, z', u', admm_penalty', errs', times_v', w') \<Rightarrow>
        0 \<le> n
        \<and> length times_v' = length times_v + nat n
        \<and> length errs' = length errs + nat n)"
  using admm_benchmark_loop_history [where projection = projection and selection = selection
        and ndim = ndim and input = input and truth = truth and admm_adjust = admm_adjust
        and maxiter = maxiter and tolerance = tolerance and verbose = verbose and clock = clock
        and eigs_proj = eigs_proj and niter = 0 and z = z and u = u
        and admm_penalty = admm_penalty and errs = errs and times_v = times_v and w = w]
  by (auto simp add: admm_benchmark_def split: prod.splits)

text \<open>
  Claim C6 as stated (after any call both lengths equal the returned count) fails when the
  caller passes histories that are not empty, since lines 136, 145, 160 and 169 append:
  in the run above each history has one entry at entry, the call returns 2 and each
  history has 3 entries.
\<close>

theorem admm_benchmark_history_counterexample:
  "\<not> (case admm_benchmark (\<lambda>x. x) (\<lambda>z s. z) 1 (0::real) 3 0 5 1 2 50 1 [7] [8] 1
              (\<lambda>k. (real k)\<^sup>2) (\<lambda>k z. z) \<lparr>ticks = 0, trace = []\<rparr> of
        (n, z', u', admm_penalty', errs', times_v', w') \<Rightarrow>
          int (length times_v') = n \<and> int (length errs') = n)"
  by (simp add: admm_benchmark_example)




text \<open>
  Claim C8, as amended. In exact arithmetic, that is, as long as no operation of the two
  iterations rounds: let an iteration with identity operators pass the convergence test,
  and let \<open>z\<close>, \<open>u\<close> be what it leaves (the penalty is unchanged). Then a fresh call of
  \<^verbatim>\<open>admm\<close> with identity operators, the same input, penalty and tolerance, that \<open>z\<close> and
  \<open>u\<close>, and \<^verbatim>\<open>maxiter\<close> at least 1 returns 1. The restriction to exact arithmetic and the
  bound on \<^verbatim>\<open>maxiter\<close> are both needed, as the three runs after the theorem show.
\<close>

theorem admm_warm_start:
  assumes "1 \<le> maxiter"
    and "b = admm_body (\<lambda>x. x) (\<lambda>z s. z) input z u admm_penalty"
    and "rr_of b < tolerance \<and> ss_of b < tolerance"
  shows "fst (admm (\<lambda>x. x) (\<lambda>z s. z) input (z_of b) (u_of b) admm_penalty admm_adjust
                maxiter tolerance) = 1"
proof -
  have u0: "u_of b = 0"
    using assms(2) by (simp add: admm_body_def Let_def)
  have zb: "z_of b - z = input /\<^sub>R admm_penalty"
    using assms(2) by (simp add: admm_body_def Let_def)
  have ss: "ss_of b = admm_penalty * norm (input /\<^sub>R admm_penalty)"
    using assms(2) by (simp add: admm_body_def Let_def)
  have "0 \<le> rr_of b"
    using assms(2) by (simp add: admm_body_def Let_def)
  with assms(3) have tol: "0 < tolerance" by linarith
  have "converged_from (\<lambda>x. x) (\<lambda>z s. z) input tolerance (z_of b, u_of b, admm_penalty)"
    using assms(3) tol by (simp add: converged_from_def admm_body_def Let_def u0 ss)
  then have c: "converged_at (\<lambda>x. x) (\<lambda>z s. z) input (z_of b) (u_of b) admm_penalty
                  admm_adjust tolerance 0"
    by (simp add: converged_at_def admm_state_at_def)
  from assms(1) have lt: "int 0 < maxiter" by simp
  show ?thesis
    using admm_run_break [OF lt _ c] by (simp add: admm_state_at_def)
qed

text \<open>
  The theorem at input 1/4, penalty 2, tolerance 1: the earlier iteration starts from
  \<open>z = 3\<close>, \<open>u = 1/2\<close> and has \<open>r = 1/2\<close>, \<open>s = 1/4\<close>.
\<close>

theorem admm_warm_start_witness:
  "(1::int) \<le> 50
   \<and> rr_of (admm_body (\<lambda>x. x) (\<lambda>z s. z) (1/4 :: real) 3 (1/2) 2) < 1
   \<and> ss_of (admm_body (\<lambda>x. x) (\<lambda>z s. z) (1/4 :: real) 3 (1/2) 2) < 1
   \<and> fst (admm (\<lambda>x. x) (\<lambda>z s. z) (1/4 :: real)
            (z_of (admm_body (\<lambda>x. x) (\<lambda>z s. z) (1/4 :: real) 3 (1/2) 2))
            (u_of (admm_body (\<lambda>x. x) (\<lambda>z s. z) (1/4 :: real) 3 (1/2) 2)) 2 2 50 1) = 1"
proof -
  have a: "(1::int) \<le> 50" by simp
  have r: "rr_of (admm_body (\<lambda>x. x) (\<lambda>z s. z) (1/4 :: real) 3 (1/2) 2) < 1
         \<and> ss_of (admm_body (\<lambda>x. x) (\<lambda>z s. z) (1/4 :: real) 3 (1/2) 2) < 1"
    by (simp add: admm_body_def Let_def)
  show ?thesis
    using a r admm_warm_start [OF a refl r, of 2] by simp
qed

text \<open>
  Claim C8 as stated puts no condition on \<^verbatim>\<open>maxiter\<close> and fails at \<^verbatim>\<open>maxiter = 0\<close>: the
  state left by a converged iteration on zero matrices satisfies the hypothesis, and the
  fresh call returns 0.
\<close>

theorem admm_warm_start_counterexample:
  "\<not> (rr_of (admm_body (\<lambda>x. x) (\<lambda>z s. z) (0::real) 0 0 1) < 1 / 10 ^ 6
      \<and> ss_of (admm_body (\<lambda>x. x) (\<lambda>z s. z) (0::real) 0 0 1) < 1 / 10 ^ 6
      \<longrightarrow> fst (admm (\<lambda>x. x) (\<lambda>z s. z) (0::real)
                  (z_of (admm_body (\<lambda>x. x) (\<lambda>z s. z) (0::real) 0 0 1))
                  (u_of (admm_body (\<lambda>x. x) (\<lambda>z s. z) (0::real) 0 0 1)) 1 2 0 (1 / 10 ^ 6))
            = 1)"
  by (simp add: admm_def admm_loop_exit admm_body_def Let_def)

text \<open>
  The earlier residuals must come from the same operators and input. After an iteration
  with the projection and selection onto the zero matrix (which passes the test for any
  input), a call with identity operators and input 100 never passes it.
\<close>

lemma admm_warm_start_other_operators:
  "rr_of (admm_body (\<lambda>x. 0) (\<lambda>z s. 0) (100::real) 0 0 1) < 1
   \<and> ss_of (admm_body (\<lambda>x. 0) (\<lambda>z s. 0) (100::real) 0 0 1) < 1
   \<and> admm (\<lambda>x. x) (\<lambda>z s. z) (100::real)
        (z_of (admm_body (\<lambda>x. 0) (\<lambda>z s. 0) (100::real) 0 0 1))
        (u_of (admm_body (\<lambda>x. 0) (\<lambda>z s. 0) (100::real) 0 0 1)) 1 2 3 1
      = (3, 700, 0, 1 / 8)"
  by (simp add: admm_def admm_loop.simps admm_body_def penalty_adjustment_def Let_def)

text \<open>
  The restriction to exact arithmetic is needed. In binary64 arithmetic, with input
  \<open>3 / 2 ^ 24\<close>, penalty 1 and tolerance \<open>7 / 2 ^ 25\<close>, the iteration from \<open>z = 2 ^ 30\<close> and
  \<open>u = 1 / 2 ^ 23\<close> has \<open>rr = ss = 0\<close>, since the sums round back to \<open>2 ^ 30\<close>, and leaves
  \<open>z = 2 ^ 30\<close>, \<open>u = 0\<close>. The fresh call from that state rounds \<open>2 ^ 30 + 3 / 2 ^ 24\<close> up,
  has \<open>ss = 1 / 2 ^ 22\<close>, which is not below the tolerance, and returns 2.
\<close>

lemma admm_warm_start_rounding:
  "admm_body_b64 arma_1x1 (\<lambda>x. x) (\<lambda>z s. z) (3 / 2 ^ 24) (2 ^ 30) (1 / 2 ^ 23) 1
     = Some \<lparr>x_of = 2 ^ 30, z_of = 2 ^ 30, u_of = 0, rr_of = 0, ss_of = 0\<rparr>
   \<and> (0::real) < 7 / 2 ^ 25
   \<and> admm_b64 arma_1x1 (\<lambda>x. x) (\<lambda>z s. z) (3 / 2 ^ 24) (2 ^ 30) 0 1 2 50 (7 / 2 ^ 25)
     = Some (2, 2 ^ 30 + 1 / 2 ^ 21, 0, 1 / 2)"
  using admm_body_b64_warm_start_run admm_b64_warm_start_run by simp

text \<open>
  Claim C9. A call of \<^verbatim>\<open>admm\<close> with \<^verbatim>\<open>maxiter\<close> at most 0 never enters the loop body:
  it returns 0 and leaves \<^verbatim>\<open>z\<close>, \<^verbatim>\<open>u\<close> and \<^verbatim>\<open>admm_penalty\<close> as they were.
\<close>

theorem admm_zero_budget:
  "maxiter \<le> 0 \<Longrightarrow>
   admm projection selection input z u admm_penalty admm_adjust maxiter tolerance
     = (0, z, u, admm_penalty)"
  by (simp add: admm_def admm_loop_exit)

text \<open>
  The theorem at \<^verbatim>\<open>maxiter = 0\<close> and at \<^verbatim>\<open>maxiter = -3\<close>.
\<close>

theorem admm_zero_budget_witness:
  "(0::int) \<le> 0 \<and> (-3::int) \<le> 0
   \<and> admm (\<lambda>x. x) (\<lambda>z s. z) (4::real) 7 5 3 2 0 1 = (0, 7, 5, 3)
   \<and> admm (\<lambda>x. x) (\<lambda>z s. z) (4::real) 7 5 3 2 (-3) 1 = (0, 7, 5, 3)"
  using admm_zero_budget [of 0 "\<lambda>x. x" "\<lambda>z s. z" "4::real" 7 5 3 2 1]
        admm_zero_budget [of "-3" "\<lambda>x. x" "\<lambda>z s. z" "4::real" 7 5 3 2 1]
  by simp

text \<open>
  Claim C10. In a call of \<^verbatim>\<open>admm_benchmark\<close> that starts when \<open>ticks w\<close> clock readings
  have been taken and returns \<open>n\<close>, iteration \<open>i\<close> takes the readings number
  \<open>ticks w + 2 i\<close> (at the start of the body, after the optional print) and
  \<open>ticks w + 2 i + 1\<close>, appends their difference to \<^verbatim>\<open>times\<close>, and only then calls the
  eigensolver; this holds on the path through the \<^verbatim>\<open>break\<close> and on the other one. So
  every call of the eigensolver lies after the second reading of its iteration and before
  the first reading of the next: no recorded duration covers it.
\<close>

theorem admm_benchmark_timing:
  "(case admm_benchmark projection selection ndim input truth z u admm_penalty admm_adjust
           maxiter tolerance errs times_v verbose clock eigs_proj w of
      (n, z', u', admm_penalty', errs', times_v', w') \<Rightarrow>
        times_v' = times_v @
          map (\<lambda>i. clock (ticks w + 2 * i + 1) - clock (ticks w + 2 * i)) [0..<nat n]
        \<and> trace w' = trace w @
             concat (map (\<lambda>i. (if verbose > 0 then [Rcout_iter (int i)] else [])
                               @ [Wall_time (clock (ticks w + 2 * i)),
                                  Wall_time (clock (ticks w + 2 * i + 1)), Eigs_sym])
                       [0..<nat n]))"
  using admm_benchmark_loop_history [where projection = projection and selection = selection
        and ndim = ndim and input = input and truth = truth and admm_adjust = admm_adjust
        and maxiter = maxiter and tolerance = tolerance and verbose = verbose and clock = clock
        and eigs_proj = eigs_proj and niter = 0 and z = z and u = u
        and admm_penalty = admm_penalty and errs = errs and times_v = times_v and w = w]
  by (auto simp add: admm_benchmark_def split: prod.splits cong: if_cong)

text \<open>
  The theorem on the run above: the readings are 0, 1, 4 and 9, and the durations 1 and 5
  are appended to the history \<open>[8]\<close>.
\<close>

theorem admm_benchmark_timing_witness:
  "(case admm_benchmark (\<lambda>x. x) (\<lambda>z s. z) 1 (0::real) 3 0 5 1 2 50 1 [7] [8] 1
              (\<lambda>k. (real k)\<^sup>2) (\<lambda>k z. z) \<lparr>ticks = 0, trace = []\<rparr> of
        (n, z', u', admm_penalty', errs', times_v', w') \<Rightarrow>
          n = 2
          \<and> times_v' = [8] @ map (\<lambda>i. (real (0 + 2 * i + 1))\<^sup>2 - (real (0 + 2 * i))\<^sup>2) [0..<nat 2]
          \<and> times_v' = [8, 1, 5]
          \<and> trace w' = [Rcout_iter 0, Wall_time 0, Wall_time 1, Eigs_sym,
                         Rcout_iter 1, Wall_time 4, Wall_time 9, Eigs_sym])"
  using admm_benchmark_timing [where projection = "\<lambda>x. x" and selection = "\<lambda>z s. z"
          and ndim = 1 and input = "0::real" and truth = 3 and z = 0 and u = 5
          and admm_penalty = 1 and admm_adjust = 2 and maxiter = 50 and tolerance = 1
          and errs = "[7]" and times_v = "[8]" and verbose = 1
          and clock = "\<lambda>k. (real k)\<^sup>2" and eigs_proj = "\<lambda>k z. z"
          and w = "\<lparr>ticks = 0, trace = []\<rparr>"]
  by (simp add: admm_benchmark_example)

end
